theory Spec2Isabelle
  imports Complex_Main
begin

section \<open>Data model\<close>

text \<open>
  A pandas cell holds a number or is null (NaN). Numbers are kept as exact rationals
  (every finite float, every int and the booleans 0/1 are rationals); \<open>None\<close> is NaN.
  Cells holding strings or other objects are outside the model.
\<close>

type_synonym cell = "rat option"

text \<open>
  A DataFrame is a list of column labels and a list of rows; a row gives the cell under
  each label. Only the cells under the labels in \<open>columns\<close> are part of the frame.
  \<open>df.columns.values\<close> is \<open>columns df\<close>, \<open>df[c]\<close> is \<open>column df c\<close>.
\<close>

record frame =
  columns :: "string list"
  rows :: "(string \<Rightarrow> cell) list"

definition column :: "frame \<Rightarrow> string \<Rightarrow> cell list" where
  "column df c = map (\<lambda>r. r c) (rows df)"

text \<open>
  The value passed as \<open>feature\<close> or \<open>target\<close>: a \<open>str\<close>, a \<open>list\<close> (of column
  labels), or a value of any other type.
\<close>

datatype spec = Str string | Lst "string list" | Other

text \<open>
  Exceptions. \<open>ValueError t a\<close> is the \<open>ValueError\<close> whose message is the template \<open>t\<close>
  with its \<open>%s\<close> filled from \<open>a\<close> (\<open>StrArg f\<close> for \<open>% f\<close>, \<open>ListArg fs\<close> for
  \<open>% str(fs)\<close>). \<open>Raised e\<close> is an exception \<open>e\<close> raised inside a collaborator of
  \<open>info_plot_utils\<close>.
\<close>

datatype fmt_arg = NoArg | StrArg string | ListArg "string list"

datatype 'e error =
    ValueError string fmt_arg
  | KeyError string
  | TypeError
  | AttributeError
  | ZeroDivisionError
  | Raised 'e

section \<open>Distinct values of a column\<close>

fun non_null :: "cell list \<Rightarrow> rat list" where
  "non_null [] = []"
| "non_null (None # cs) = non_null cs"
| "non_null (Some v # cs) = v # non_null cs"

text \<open>
  \<open>np.unique\<close>: the distinct values in ascending order, NaN last. On such a list
  Python's \<open>sorted\<close> changes nothing (no element compares less than its predecessor),
  so \<open>sorted(list(np.unique(col)))\<close> is \<open>np_unique col\<close>.
\<close>

definition np_unique :: "cell list \<Rightarrow> cell list" where
  "np_unique cs =
     map Some (sort (remdups (non_null cs))) @ (if None \<in> set cs then [None] else [])"

text \<open>\<open>sorted(list(np.unique(col))) == [0, 1]\<close>\<close>

definition is_01 :: "cell list \<Rightarrow> bool" where
  "is_01 cs = (np_unique cs = [Some 0, Some 1])"

section \<open>Validation in \<open>target_plot\<close>\<close>

text \<open>Lines 124 to 139, \<open># check feature\<close>: the feature type, or the exception raised.\<close>

definition check_feature :: "frame \<Rightarrow> spec \<Rightarrow> 'e error + string" where
  "check_feature df feature =
     (case feature of
        Str f \<Rightarrow>
          if f \<notin> set (columns df) then
            Inl (ValueError ''feature does not exist: %s'' (StrArg f))
          else if is_01 (column df f) then Inr ''binary''
          else Inr ''numeric''
      | Lst fs \<Rightarrow>
          if length fs < 2 then
            Inl (ValueError ''one-hot encoding feature should contain more than 1 element'' NoArg)
          else if \<not> (set fs \<subset> set (columns df)) then
            Inl (ValueError ''feature does not exist: %s'' (ListArg fs))
          else Inr ''onehot''
      | Other \<Rightarrow>
          Inl (ValueError
                 ''feature: please pass a string or a list (for onehot encoding feature)'' NoArg))"

text \<open>
  Lines 141 to 146, \<open># check percentile_range\<close>. \<open>percentile_range\<close> is \<open>None\<close> or a
  sequence of numbers; \<open>np.max\<close> and \<open>np.min\<close> are only reached with two elements.
\<close>

definition check_percentile_range :: "rat list option \<Rightarrow> 'e error + unit" where
  "check_percentile_range percentile_range =
     (case percentile_range of
        None \<Rightarrow> Inr ()
      | Some p \<Rightarrow>
          if length p \<noteq> 2 then
            Inl (ValueError ''percentile_range: should contain 2 elements'' NoArg)
          else if Max (set p) > 100 \<or> Min (set p) < 0 then
            Inl (ValueError ''percentile_range: should be between 0 and 100'' NoArg)
          else Inr ())"

text \<open>Lines 161 to 163: the loop over the listed targets stops at the first column
  whose distinct values are not \<open>[0, 1]\<close>.\<close>

fun check_onehot_targets :: "frame \<Rightarrow> string list \<Rightarrow> 'e error option" where
  "check_onehot_targets df [] = None"
| "check_onehot_targets df (t # ts) =
     (if \<not> is_01 (column df t) then
        Some (ValueError ''multi-class targets should be one-hot encoded: %s'' (StrArg t))
      else check_onehot_targets df ts)"

text \<open>Lines 148 to 166, \<open># check target values\<close>: the target type, or the exception.\<close>

definition check_target :: "frame \<Rightarrow> spec \<Rightarrow> 'e error + string" where
  "check_target df target =
     (case target of
        Str t \<Rightarrow>
          if t \<notin> set (columns df) then
            Inl (ValueError ''target does not exist: %s'' (StrArg t))
          else if is_01 (column df t) then Inr ''binary''
          else Inr ''regression''
      | Lst ts \<Rightarrow>
          if length ts < 2 then
            Inl (ValueError ''multi-class target should contain more than 1 element'' NoArg)
          else if \<not> (set ts \<subset> set (columns df)) then
            Inl (ValueError ''target does not exist: %s'' (ListArg ts))
          else (case check_onehot_targets df ts of
                  Some e \<Rightarrow> Inl e
                | None \<Rightarrow> Inr ''multi-class'')
      | Other \<Rightarrow>
          Inl (ValueError
                 ''target: please pass a string or a list (for multi-class targets)'' NoArg))"

text \<open>
  The specification's names for the failures of \<open>target_plot\<close>, by the place that raises:
  \<open>InvalidFeature\<close> for the three \<open>ValueError\<close>s under \<open># check feature\<close>,
  \<open>InvalidRange\<close> for the two under \<open># check percentile_range\<close>, \<open>InvalidTarget\<close> for
  the four under \<open># check target values\<close>.
\<close>

definition InvalidFeature :: "'e error \<Rightarrow> bool" where
  "InvalidFeature e =
     (case e of
        ValueError t a \<Rightarrow>
          t \<in> set [''feature does not exist: %s'',
                    ''one-hot encoding feature should contain more than 1 element'',
                    ''feature: please pass a string or a list (for onehot encoding feature)'']
      | _ \<Rightarrow> False)"

definition InvalidRange :: "'e error \<Rightarrow> bool" where
  "InvalidRange e =
     (case e of
        ValueError t a \<Rightarrow>
          t \<in> set [''percentile_range: should contain 2 elements'',
                    ''percentile_range: should be between 0 and 100'']
      | _ \<Rightarrow> False)"

definition InvalidTarget :: "'e error \<Rightarrow> bool" where
  "InvalidTarget e =
     (case e of
        ValueError t a \<Rightarrow>
          t \<in> set [''target does not exist: %s'',
                    ''multi-class target should contain more than 1 element'',
                    ''multi-class targets should be one-hot encoded: %s'',
                    ''target: please pass a string or a list (for multi-class targets)'']
      | _ \<Rightarrow> False)"

section \<open>Frames in a store\<close>

text \<open>
  pandas operations used by \<open>target_plot\<close>. \<open>select_columns df names\<close> is
  \<open>df[names]\<close>: a new frame with the listed columns (a \<open>KeyError\<close> when a label is
  missing). \<open>set_column f c v\<close> is the frame after \<open>f[c] = v\<close> with a scalar \<open>v\<close>.
\<close>

definition select_columns :: "frame \<Rightarrow> string list \<Rightarrow> 'e error + frame" where
  "select_columns df names =
     (case find (\<lambda>n. n \<notin> set (columns df)) names of
        Some n \<Rightarrow> Inl (KeyError n)
      | None \<Rightarrow>
          Inr \<lparr>columns = names,
               rows = map (\<lambda>r c. if c \<in> set names then r c else None) (rows df)\<rparr>)"

definition set_column :: "frame \<Rightarrow> string \<Rightarrow> cell \<Rightarrow> frame" where
  "set_column f c v =
     \<lparr>columns = (if c \<in> set (columns f) then columns f else columns f @ [c]),
      rows = map (\<lambda>r. r(c := v)) (rows f)\<rparr>"

text \<open>
  \<open>f.groupby('x', as_index=False).agg({c: 'count'}).sort_values('x', ascending=True)\<close>
  and the same with \<open>'mean'\<close>. The groups are the distinct non-null values of column
  \<open>x\<close> in ascending order (rows whose \<open>x\<close> is null belong to no group); \<open>count\<close> counts
  the non-null cells of \<open>c\<close> in the group, \<open>mean\<close> averages them and is NaN when there is
  none. The mean is the exact quotient; floating-point rounding is not modelled.
\<close>

definition group_keys :: "frame \<Rightarrow> rat list" where
  "group_keys f = sort (remdups (non_null (column f ''x'')))"

definition group_cells :: "frame \<Rightarrow> string \<Rightarrow> rat \<Rightarrow> rat list" where
  "group_cells f c k = non_null (map (\<lambda>r. r c) (filter (\<lambda>r. r ''x'' = Some k) (rows f)))"

definition mean :: "rat list \<Rightarrow> cell" where
  "mean vs = (if vs = [] then None else Some (sum_list vs / of_nat (length vs)))"

definition groupby_count :: "frame \<Rightarrow> string \<Rightarrow> 'e error + (rat \<times> nat) list" where
  "groupby_count f c =
     (if ''x'' \<notin> set (columns f) then Inl (KeyError ''x'')
      else if c \<notin> set (columns f) then Inl (KeyError c)
      else Inr (sort_key fst (map (\<lambda>k. (k, length (group_cells f c k))) (group_keys f))))"

definition groupby_mean :: "frame \<Rightarrow> string \<Rightarrow> 'e error + (rat \<times> cell) list" where
  "groupby_mean f c =
     (if ''x'' \<notin> set (columns f) then Inl (KeyError ''x'')
      else if c \<notin> set (columns f) then Inl (KeyError c)
      else Inr (sort_key fst (map (\<lambda>k. (k, mean (group_cells f c k))) (group_keys f))))"

text \<open>Lines 195 to 198: one target line per listed target, in order.\<close>

fun mean_lines :: "frame \<Rightarrow> string list \<Rightarrow> 'e error + (rat \<times> cell) list list" where
  "mean_lines f [] = Inr []"
| "mean_lines f (t # ts) =
     (case groupby_mean f t of
        Inl e \<Rightarrow> Inl e
      | Inr target_line \<Rightarrow>
          (case mean_lines f ts of
             Inl e \<Rightarrow> Inl e
           | Inr target_lines \<Rightarrow> Inr (target_line # target_lines)))"

text \<open>
  Lines 189 to 198. With a target type of \<open>binary\<close> or \<open>regression\<close> the target is used
  as one column label (a list is not hashable: \<open>TypeError\<close>); otherwise
  \<open>target[target_idx]\<close> is indexed over \<open>range(len(target))\<close>, which on a \<open>str\<close> yields
  its characters. After \<open>check_target\<close> only the first case of each branch is reached.
\<close>

definition prepare_target_lines ::
  "frame \<Rightarrow> spec \<Rightarrow> string \<Rightarrow> 'e error + (rat \<times> cell) list list" where
  "prepare_target_lines data_x target target_type =
     (if target_type \<in> set [''binary'', ''regression''] then
        (case target of
           Str t \<Rightarrow>
             (case groupby_mean data_x t of
                Inl e \<Rightarrow> Inl e
              | Inr target_line \<Rightarrow> Inr [target_line])
         | _ \<Rightarrow> Inl TypeError)
      else
        (case target of
           Lst ts \<Rightarrow> mean_lines data_x ts
         | Str t \<Rightarrow> mean_lines data_x (map (\<lambda>c. [c]) t)
         | Other \<Rightarrow> Inl TypeError))"

text \<open>Lines 168 to 177: \<open>useful_features\<close>. A value that is neither \<open>str\<close> nor \<open>list\<close>
  never gets this far.\<close>

fun as_list :: "spec \<Rightarrow> string list" where
  "as_list (Lst xs) = xs"
| "as_list (Str x) = [x]"
| "as_list Other = []"

text \<open>A Python value that is \<open>None\<close> or a drawing surface.\<close>

datatype 'ax pyval = PyNone | Axes 'ax

text \<open>The grid arguments \<open>target_plot\<close> passes on to \<open>_prepare_data_x\<close>.\<close>

record grid_args =
  num_grid_points :: int
  grid_type :: string
  percentile_range :: "rat list option"
  grid_range :: "(rat \<times> rat) option"
  cust_grid_points :: "rat list option"
  show_percentile :: bool

text \<open>The keyword arguments of the call of \<open>_target_plot\<close> (lines 200 to 202).\<close>

record ('d, 'p, 'ax, 'pp) target_plot_args =
  kw_feature_name :: string
  kw_display_columns :: 'd
  kw_percentile_columns :: 'p
  kw_target :: spec
  kw_bar_data :: "(rat \<times> nat) list"
  kw_target_lines :: "(rat \<times> cell) list list"
  kw_figsize :: "(rat \<times> rat) option"
  kw_ax :: "'ax pyval"
  kw_plot_params :: 'pp

text \<open>
  The state a call of \<open>target_plot\<close> runs in: the DataFrame objects, by reference
  (references below \<open>next_ref\<close> are allocated), and the calls of the renderer made so far.
\<close>

record ('d, 'p, 'ax, 'pp) world =
  store :: "nat \<Rightarrow> frame"
  next_ref :: nat
  calls :: "('d, 'p, 'ax, 'pp) target_plot_args list"

definition alloc ::
  "('d, 'p, 'ax, 'pp) world \<Rightarrow> frame \<Rightarrow> nat \<times> ('d, 'p, 'ax, 'pp) world" where
  "alloc w f = (next_ref w, w\<lparr>store := (store w)(next_ref w := f), next_ref := Suc (next_ref w)\<rparr>)"

section \<open>\<open>target_plot\<close>\<close>

text \<open>
  \<open>_prepare_data_x\<close> and \<open>_target_plot\<close> live in \<open>info_plot_utils\<close>, which is not part of
  the sources; they are parameters. \<open>prepare_data_x feature feature_type data cfg\<close>
  returns \<open>(data_x, display_columns, percentile_columns)\<close> or raises; it is handed the
  copy \<open>data\<close> only. \<open>data_x\<close> is \<open>data\<close> itself or a frame the collaborator made; the
  model keeps it under a reference of its own (\<open>data\<close> is not read again).
  \<open>df\<close> is the reference of the caller's DataFrame.
\<close>

definition target_plot ::
  "(spec \<Rightarrow> string \<Rightarrow> frame \<Rightarrow> grid_args \<Rightarrow> 'e + frame \<times> 'd \<times> 'p) \<Rightarrow>
   (('d, 'p, 'ax, 'pp) target_plot_args \<Rightarrow> 'e + 'ax pyval) \<Rightarrow>
   ('d, 'p, 'ax, 'pp) world \<Rightarrow> nat \<Rightarrow> spec \<Rightarrow> string \<Rightarrow> spec \<Rightarrow> grid_args \<Rightarrow>
   (rat \<times> rat) option \<Rightarrow> 'ax pyval \<Rightarrow> 'pp \<Rightarrow>
   ('e error + 'ax pyval) \<times> ('d, 'p, 'ax, 'pp) world" where
  "target_plot prepare_data_x render_target_plot w df feature feature_name target cfg
       figsize ax plot_params =
     (case check_feature (store w df) feature of
        Inl e \<Rightarrow> (Inl e, w)
      | Inr feature_type \<Rightarrow>
     (case check_percentile_range (percentile_range cfg) of
        Inl e \<Rightarrow> (Inl e, w)
      | Inr _ \<Rightarrow>
     (case check_target (store w df) target of
        Inl e \<Rightarrow> (Inl e, w)
      | Inr target_type \<Rightarrow>
     (case select_columns (store w df) (as_list feature @ as_list target) of
        Inl e \<Rightarrow> (Inl e, w)
      | Inr data \<Rightarrow>
     (case alloc w data of (data_ref, w1) \<Rightarrow>
     (case prepare_data_x feature feature_type (store w1 data_ref) cfg of
        Inl e \<Rightarrow> (Inl (Raised e), w1)
      | Inr (data_x, display_columns, percentile_columns) \<Rightarrow>
     (case alloc w1 data_x of (x_ref, w2) \<Rightarrow>
     (let w3 = w2\<lparr>store := (store w2)
                   (x_ref := set_column (store w2 x_ref) ''fake_count'' (Some 1))\<rparr>
      in
     (case groupby_count (store w3 x_ref) ''fake_count'' of
        Inl e \<Rightarrow> (Inl e, w3)
      | Inr bar_data \<Rightarrow>
     (case prepare_target_lines (store w3 x_ref) target target_type of
        Inl e \<Rightarrow> (Inl e, w3)
      | Inr target_lines \<Rightarrow>
     (let call = \<lparr>kw_feature_name = feature_name, kw_display_columns = display_columns,
                  kw_percentile_columns = percentile_columns, kw_target = target,
                  kw_bar_data = bar_data, kw_target_lines = target_lines,
                  kw_figsize = figsize, kw_ax = ax, kw_plot_params = plot_params\<rparr>;
          w4 = w3\<lparr>calls := calls w3 @ [call]\<rparr>
      in
     (case render_target_plot call of
        Inl e \<Rightarrow> (Inl (Raised e), w4)
      | Inr axes \<Rightarrow> (Inr axes, w4)))))))))))))"

section \<open>\<open>actual_plot\<close>\<close>

text \<open>
  \<open>pdp_isolate_out\<close> is one \<open>pdp_isolate_obj\<close> or, for a multi-class model, a \<open>dict\<close> from
  \<open>class_0\<close>, \<open>class_1\<close>, ... to such objects. The dict is an association list read with
  \<open>map_of\<close>; \<open>len(d.keys())\<close> is its number of distinct keys. A \<open>pdp_isolate_obj\<close> has no
  method \<open>keys\<close> and cannot be subscripted.
\<close>

datatype 'o pdp_out = Obj 'o | Dict "(string \<times> 'o) list"

definition dict_len :: "(string \<times> 'o) list \<Rightarrow> nat" where
  "dict_len d = length (remdups (map fst d))"

text \<open>\<open>'class_%d' % n\<close>: decimal digits, with a minus sign for a negative number.\<close>

fun str_of_nat :: "nat \<Rightarrow> string" where
  "str_of_nat n =
     (if n < 10 then [''0123456789'' ! n]
      else str_of_nat (n div 10) @ [''0123456789'' ! (n mod 10)])"

definition fmt_d :: "int \<Rightarrow> string" where
  "fmt_d i = (if i < 0 then CHR ''-'' # str_of_nat (nat (- i)) else str_of_nat (nat i))"

definition class_key :: "int \<Rightarrow> string" where
  "class_key n = ''class_'' @ fmt_d n"

text \<open>
  What \<open>actual_plot\<close> does to the outside is a sequence of calls: \<open>plt.figure\<close>,
  \<open>plt.subplot\<close> and \<open>GridSpec\<close> of matplotlib, and \<open>_actual_plot_title\<close> and
  \<open>_actual_plot\<close> of \<open>info_plot_utils\<close>. \<open>Title\<close> carries \<open>feature_name\<close>, \<open>figsize\<close>,
  \<open>multi_flag\<close>, \<open>which_class\<close> and \<open>plot_params\<close> (its \<open>ax\<close> is the subplot made just
  before); \<open>Panel\<close> carries \<open>pdp_isolate_out\<close>, \<open>feature_name\<close>, \<open>figwidth\<close>,
  \<open>plot_params\<close> and \<open>outer\<close> (\<open>None\<close>, or the index of the grid cell).
\<close>

datatype ('o, 'pp) plot_call =
    Figure rat rat
  | Subplot nat
  | GridSpec int int
  | Title string "(rat \<times> rat) option" bool "int option" 'pp
  | Panel 'o string rat 'pp "nat option"

text \<open>
  The two collaborators are not part of the sources: \<open>raises c\<close> is the exception the
  call \<open>c\<close> of a collaborator ends with, if any. The matplotlib calls are taken to
  return. \<open>invoke\<close> makes a call: it is added to the calls made so far.
\<close>

definition invoke ::
  "(('o, 'pp) plot_call \<Rightarrow> 'e option) \<Rightarrow> ('o, 'pp) plot_call \<Rightarrow> ('o, 'pp) plot_call list \<Rightarrow>
   'e option \<times> ('o, 'pp) plot_call list" where
  "invoke raises c tr = (raises c, tr @ [c])"

text \<open>Lines 56 to 59: one panel per class, until a lookup or a panel raises.\<close>

fun plot_classes ::
  "(('o, 'pp) plot_call \<Rightarrow> 'e option) \<Rightarrow> (string \<times> 'o) list \<Rightarrow> string \<Rightarrow> rat \<Rightarrow> 'pp \<Rightarrow>
   nat list \<Rightarrow> ('o, 'pp) plot_call list \<Rightarrow> 'e error option \<times> ('o, 'pp) plot_call list" where
  "plot_classes raises d feature_name figwidth plot_params [] tr = (None, tr)"
| "plot_classes raises d feature_name figwidth plot_params (n_class # ns) tr =
     (case map_of d (class_key (int n_class)) of
        None \<Rightarrow> (Some (KeyError (class_key (int n_class))), tr)
      | Some obj \<Rightarrow>
          (case invoke raises
                  (Panel obj (feature_name @ '' '' @ class_key (int n_class)) figwidth
                     plot_params (Some n_class)) tr of
             (Some e, tr') \<Rightarrow> (Some (Raised e), tr')
           | (None, tr') \<Rightarrow> plot_classes raises d feature_name figwidth plot_params ns tr'))"

text \<open>
  Line 32, the condition after \<open>multi_flag and\<close>:
  \<open>which_class >= len(pdp_isolate_out.keys())\<close>, with Python 3's comparison
  (\<open>None >= n\<close> is a \<open>TypeError\<close>).
\<close>

definition which_class_ge_len :: "int option \<Rightarrow> 'o pdp_out \<Rightarrow> 'e error + bool" where
  "which_class_ge_len which_class pdp_isolate_out =
     (case pdp_isolate_out of
        Obj _ \<Rightarrow> Inl AttributeError
      | Dict d \<Rightarrow>
          (case which_class of
             None \<Rightarrow> Inl TypeError
           | Some c \<Rightarrow> Inr (c \<ge> int (dict_len d))))"

text \<open>Lines 61 to 70: the single panel.\<close>

definition single_panel ::
  "(('o, 'pp) plot_call \<Rightarrow> 'e option) \<Rightarrow> ('o, 'pp) plot_call list \<Rightarrow> 'o \<Rightarrow> string \<Rightarrow>
   (rat \<times> rat) option \<Rightarrow> rat \<Rightarrow> 'pp \<Rightarrow> bool \<Rightarrow> int option \<Rightarrow>
   ('e error + 'ax pyval) \<times> ('o, 'pp) plot_call list" where
  "single_panel raises tr obj feature_name figsize figwidth plot_params multi_flag which_class =
     (case invoke raises (Title feature_name figsize multi_flag which_class plot_params) tr of
        (Some e, tr') \<Rightarrow> (Inl (Raised e), tr')
      | (None, tr') \<Rightarrow>
          (case invoke raises (Panel obj feature_name figwidth plot_params None) tr' of
             (Some e, tr'') \<Rightarrow> (Inl (Raised e), tr'')
           | (None, tr'') \<Rightarrow> (Inr PyNone, tr'')))"

text \<open>
  Lines 35 to 70. \<open>6.7\<close> is the rational \<open>67/10\<close>, and \<open>np.ceil(float(n_classes) / ncols)\<close>
  the exact ceiling; \<open>ncols\<close> is \<open>None\<close> or an integer. The function has no \<open>return\<close>
  statement: a call that does not raise returns \<open>None\<close>.
\<close>

definition actual_plot_body ::
  "(('o, 'pp) plot_call \<Rightarrow> 'e option) \<Rightarrow> ('o, 'pp) plot_call list \<Rightarrow> 'o pdp_out \<Rightarrow> string \<Rightarrow>
   (rat \<times> rat) option \<Rightarrow> 'pp \<Rightarrow> bool \<Rightarrow> int option \<Rightarrow> int option \<Rightarrow>
   ('e error + 'ax pyval) \<times> ('o, 'pp) plot_call list" where
  "actual_plot_body raises tr pdp_isolate_out feature_name figsize plot_params multi_flag
       which_class ncols =
     (let figwidth = (case figsize of None \<Rightarrow> 16 | Some (width, height) \<Rightarrow> width);
          tr1 = tr @ [Figure figwidth (figwidth / (67 / 10)), Subplot 111]
      in
      case pdp_isolate_out of
        Dict d \<Rightarrow>
          if \<not> multi_flag then
            (let n_classes = dict_len d in
             case invoke raises
                    (Title feature_name figsize multi_flag which_class plot_params) tr1 of
               (Some e, tr2) \<Rightarrow> (Inl (Raised e), tr2)
             | (None, tr2) \<Rightarrow>
                 (let ncols = (case ncols of None \<Rightarrow> 2 | Some c \<Rightarrow> c) in
                  if ncols = 0 then (Inl ZeroDivisionError, tr2)
                  else
                    (let nrows = \<lceil>(of_nat n_classes :: rat) / of_int ncols\<rceil>;
                         tr3 = tr2 @ [Figure figwidth ((figwidth / of_int ncols) * of_int nrows),
                                      GridSpec nrows ncols]
                     in
                     case plot_classes raises d feature_name figwidth plot_params
                            [0..<n_classes] tr3 of
                       (Some e, tr4) \<Rightarrow> (Inl e, tr4)
                     | (None, tr4) \<Rightarrow> (Inr PyNone, tr4))))
          else
            (case which_class of
               None \<Rightarrow> (Inl TypeError, tr1)
             | Some c \<Rightarrow>
                 (case map_of d (class_key c) of
                    None \<Rightarrow> (Inl (KeyError (class_key c)), tr1)
                  | Some obj \<Rightarrow>
                      single_panel raises tr1 obj feature_name figsize figwidth plot_params
                        multi_flag which_class))
      | Obj obj \<Rightarrow>
          if multi_flag then (Inl TypeError, tr1)
          else single_panel raises tr1 obj feature_name figsize figwidth plot_params
                 multi_flag which_class)"

text \<open>Lines 31 to 33, \<open># check which_class\<close>, then the rest. \<open>tr\<close> holds the calls made before
  \<open>actual_plot\<close> is entered.\<close>

definition actual_plot ::
  "(('o, 'pp) plot_call \<Rightarrow> 'e option) \<Rightarrow> ('o, 'pp) plot_call list \<Rightarrow> 'o pdp_out \<Rightarrow> string \<Rightarrow>
   (rat \<times> rat) option \<Rightarrow> 'pp \<Rightarrow> bool \<Rightarrow> int option \<Rightarrow> int option \<Rightarrow>
   ('e error + 'ax pyval) \<times> ('o, 'pp) plot_call list" where
  "actual_plot raises tr pdp_isolate_out feature_name figsize plot_params multi_flag
       which_class ncols =
     (case (if multi_flag then which_class_ge_len which_class pdp_isolate_out else Inr False) of
        Inl e \<Rightarrow> (Inl e, tr)
      | Inr True \<Rightarrow> (Inl (ValueError ''which_class: class does not exist'' NoArg), tr)
      | Inr False \<Rightarrow>
          actual_plot_body raises tr pdp_isolate_out feature_name figsize plot_params multi_flag
            which_class ncols)"

text \<open>\<open>InvalidClassSelector\<close> is the \<open>ValueError\<close> of line 33.\<close>

definition InvalidClassSelector :: "'e error \<Rightarrow> bool" where
  "InvalidClassSelector e =
     (case e of
        ValueError t a \<Rightarrow> t = ''which_class: class does not exist''
      | _ \<Rightarrow> False)"

text \<open>An error of the specification's taxonomy.\<close>

definition in_taxonomy :: "'e error \<Rightarrow> bool" where
  "in_taxonomy e =
     (InvalidFeature e \<or> InvalidTarget e \<or> InvalidRange e \<or> InvalidClassSelector e)"

text \<open>A multi-class result: every key is one of \<open>class_0\<close>, ..., \<open>class_(n-1)\<close>, for
  \<open>n\<close> entries.\<close>

definition class_dict :: "(string \<times> 'o) list \<Rightarrow> bool" where
  "class_dict d = (set (map fst d) \<subseteq> set (map (\<lambda>n. class_key (int n)) [0..<length d]))"

section \<open>Example inputs\<close>

text \<open>
  Concrete inputs for the examples below. \<open>feature_as_x\<close> is a grid builder that takes
  the value of a string feature as the bin of the row (the grid of a binary feature);
  \<open>draw_on\<close> is a renderer that returns the drawing surface it is given, or a new one.
  \<open>world_of df\<close> holds the caller's DataFrame under reference \<open>0\<close> and nothing else.
\<close>

definition feature_as_x ::
  "spec \<Rightarrow> string \<Rightarrow> frame \<Rightarrow> grid_args \<Rightarrow> unit + frame \<times> string list \<times> string list option" where
  "feature_as_x feature feature_type data cfg =
     (case feature of
        Str f \<Rightarrow>
          Inr (\<lparr>columns = columns data @ [''x''], rows = map (\<lambda>r. r(''x'' := r f)) (rows data)\<rparr>,
               [''0'', ''1''], None)
      | _ \<Rightarrow> Inl ())"

definition draw_on ::
  "(string list, string list option, nat, unit) target_plot_args \<Rightarrow> unit + nat pyval" where
  "draw_on call = Inr (case kw_ax call of PyNone \<Rightarrow> Axes 0 | Axes a \<Rightarrow> Axes a)"

definition example_df :: frame where
  "example_df =
     \<lparr>columns = [''f'', ''y''],
      rows = [map_of [(''f'', 0), (''y'', 1)],
              map_of [(''f'', 1), (''y'', 0)],
              map_of [(''f'', 1), (''y'', 1)]]\<rparr>"

definition example_cfg :: grid_args where
  "example_cfg =
     \<lparr>num_grid_points = 10, grid_type = ''percentile'', percentile_range = None,
      grid_range = None, cust_grid_points = None, show_percentile = False\<rparr>"

definition world_of :: "frame \<Rightarrow> (string list, string list option, nat, unit) world" where
  "world_of df = \<lparr>store = (\<lambda>_. \<lparr>columns = [], rows = []\<rparr>)(0 := df), next_ref = 1, calls = []\<rparr>"

definition example_call ::
  "(unit error + nat pyval) \<times> (string list, string list option, nat, unit) world" where
  "example_call =
     target_plot feature_as_x draw_on (world_of example_df) 0 (Str ''f'') ''f'' (Str ''y'')
       example_cfg None PyNone ()"

definition onehot_df :: frame where
  "onehot_df =
     \<lparr>columns = [''a'', ''b''],
      rows = [map_of [(''a'', 1), (''b'', 0)], map_of [(''a'', 0), (''b'', 1)]]\<rparr>"

definition class_df :: frame where
  "class_df =
     \<lparr>columns = [''f'', ''a'', ''b''],
      rows = [map_of [(''f'', 0), (''a'', 1), (''b'', 0)],
              map_of [(''f'', 1), (''a'', 0), (''b'', 1)],
              map_of [(''f'', 2), (''a'', 1), (''b'', 0)]]\<rparr>"

text \<open>
  A dataset with nulls in the feature and in the target, and the call of \<open>target_plot\<close>
  on it. \<open>complete_rows df cs\<close> is the number of rows of \<open>df\<close> whose cells under all the
  labels \<open>cs\<close> are non-null.
\<close>

definition complete_rows :: "frame \<Rightarrow> string list \<Rightarrow> nat" where
  "complete_rows df cs = length (filter (\<lambda>r. list_all (\<lambda>c. r c \<noteq> None) cs) (rows df))"

definition nulls_df :: frame where
  "nulls_df =
     \<lparr>columns = [''f'', ''y''],
      rows = [map_of [(''f'', 0)],
              map_of [(''f'', 1), (''y'', 0)],
              map_of [(''y'', 1)],
              map_of [(''f'', 1)],
              map_of [(''f'', 1), (''y'', 1)],
              map_of [(''f'', 0)]]\<rparr>"

definition nulls_call ::
  "(unit error + nat pyval) \<times> (string list, string list option, nat, unit) world" where
  "nulls_call =
     target_plot feature_as_x draw_on (world_of nulls_df) 0 (Str ''f'') ''f'' (Str ''y'')
       example_cfg None PyNone ()"

text \<open>
  For \<open>actual_plot\<close>: the result of a three-class model, and collaborators that
  return normally.
\<close>

definition three_classes :: "(string \<times> unit) list" where
  "three_classes = [(''class_0'', ()), (''class_1'', ()), (''class_2'', ())]"

definition never_raises :: "(unit, unit) plot_call \<Rightarrow> unit option" where
  "never_raises c = None"

section \<open>Distinct values and validation\<close>

lemma set_non_null: "set (non_null cs) = {v. Some v \<in> set cs}"
  by (induction cs rule: non_null.induct) auto

lemma set_cells: "None \<notin> set cs \<Longrightarrow> set cs = Some ` set (non_null cs)"
  by (induction cs rule: non_null.induct) auto

lemma sorted_01: "set xs = {0, 1::rat} \<Longrightarrow> sort (remdups xs) = [0, 1]"
proof -
  assume s: "set xs = {0, 1::rat}"
  have "sorted (sort (remdups xs))" "distinct (sort (remdups xs))"
    by simp_all
  moreover have "sorted [0, 1::rat]" "distinct [0, 1::rat]"
    by simp_all
  moreover have "set (sort (remdups xs)) = set [0, 1::rat]"
    using s by simp
  ultimately show ?thesis
    by (rule sorted_distinct_set_unique)
qed

lemma is_01_iff: "is_01 cs \<longleftrightarrow> set cs = {Some 0, Some 1}"
proof
  assume "is_01 cs"
  then have eq: "map Some (sort (remdups (non_null cs))) @ (if None \<in> set cs then [None] else [])
      = [Some 0, Some 1]"
    by (simp add: is_01_def np_unique_def)
  have nn: "None \<notin> set cs"
  proof
    assume "None \<in> set cs"
    with eq have "map Some (sort (remdups (non_null cs))) @ [None] = [Some 0, Some (1::rat)]"
      by simp
    then have "last (map Some (sort (remdups (non_null cs))) @ [None]) = last [Some 0, Some (1::rat)]"
      by (rule arg_cong)
    then show False by simp
  qed
  with eq have "map Some (sort (remdups (non_null cs))) = [Some 0, Some 1]"
    by simp
  then have "set (map Some (sort (remdups (non_null cs)))) = set [Some 0, Some 1]"
    by (rule arg_cong)
  then have "Some ` set (non_null cs) = {Some 0, Some 1}"
    by simp
  with set_cells [OF nn] show "set cs = {Some 0, Some 1}"
    by simp
next
  assume s: "set cs = {Some 0, Some 1}"
  then have nn: "None \<notin> set cs" by simp
  from s set_cells [OF nn] have "Some ` set (non_null cs) = Some ` {0, 1}"
    by simp
  then have "set (non_null cs) = {0, 1}"
    by (simp only: inj_image_eq_iff [OF inj_Some])
  then have "sort (remdups (non_null cs)) = [0, 1]"
    by (rule sorted_01)
  with nn show "is_01 cs"
    by (simp add: is_01_def np_unique_def)
qed

lemma check_feature_error: "check_feature df feature = Inl e \<Longrightarrow> InvalidFeature e"
  by (auto simp: check_feature_def InvalidFeature_def split: spec.splits if_splits)

lemma check_percentile_range_error:
  "check_percentile_range p = Inl e \<Longrightarrow> InvalidRange e \<and> \<not> InvalidTarget e \<and> \<not> InvalidFeature e"
  by (auto simp: check_percentile_range_def InvalidRange_def InvalidTarget_def InvalidFeature_def
      split: option.splits if_splits)

lemma check_onehot_targets_error:
  "check_onehot_targets df ts = Some e \<Longrightarrow> InvalidTarget e"
  by (induction ts) (auto simp: InvalidTarget_def split: if_splits)

lemma check_onehot_targets_iff:
  "(check_onehot_targets df ts = None) \<longleftrightarrow> (\<forall>t\<in>set ts. is_01 (column df t))"
  by (induction ts) auto

lemma check_target_error: "check_target df target = Inl e \<Longrightarrow> InvalidTarget e"
  by (auto simp: check_target_def InvalidTarget_def dest: check_onehot_targets_error
      split: spec.splits if_splits option.splits)

text \<open>
  C1 (as amended). In \<open>target_plot\<close>, a string feature naming an existing column gets the
  type \<open>binary\<close> when the set of distinct values of the column is exactly \<open>{0, 1}\<close>, and
  \<open>numeric\<close> in every other case (also when the values are only \<open>0\<close>, or only \<open>1\<close>).
\<close>

theorem feature_type_exactly_01:
  "f \<in> set (columns df) \<Longrightarrow>
   check_feature df (Str f) =
     Inr (if set (column df f) = {Some 0, Some 1} then ''binary'' else ''numeric'')"
  by (simp add: check_feature_def is_01_iff)



theorem feature_type_exactly_01_witness:
  "''f'' \<in> set (columns \<lparr>columns = [''f'', ''y''],
        rows = [map_of [(''f'', 0), (''y'', 5)], map_of [(''f'', 1), (''y'', 7)]]\<rparr>) \<and>
   (check_feature \<lparr>columns = [''f'', ''y''],
        rows = [map_of [(''f'', 0), (''y'', 5)], map_of [(''f'', 1), (''y'', 7)]]\<rparr> (Str ''f'')
      :: unit error + string) = Inr ''binary'' \<and>
   (check_feature \<lparr>columns = [''f'', ''y''],
        rows = [map_of [(''f'', 0), (''y'', 5)], map_of [(''f'', 1), (''y'', 7)]]\<rparr> (Str ''y'')
      :: unit error + string) = Inr ''numeric''"
  using feature_type_exactly_01 [of "''f''" "\<lparr>columns = [''f'', ''y''],
        rows = [map_of [(''f'', 0), (''y'', 5)], map_of [(''f'', 1), (''y'', 7)]]\<rparr>", where ?'a = unit]
    feature_type_exactly_01 [of "''y''" "\<lparr>columns = [''f'', ''y''],
        rows = [map_of [(''f'', 0), (''y'', 5)], map_of [(''f'', 1), (''y'', 7)]]\<rparr>", where ?'a = unit]
  by (simp add: column_def doubleton_eq_iff)




text \<open>
  C1 as stated fails: a column whose values are all \<open>0\<close> has the distinct values \<open>{0}\<close>,
  a non-empty subset of \<open>{0, 1}\<close>, and the feature type is \<open>numeric\<close>.
\<close>

theorem subset_of_01_not_binary:
  "set (column \<lparr>columns = [''f''], rows = [map_of [(''f'', 0)], map_of [(''f'', 0)]]\<rparr> ''f'')
     = {Some 0} \<and>
   (check_feature \<lparr>columns = [''f''], rows = [map_of [(''f'', 0)], map_of [(''f'', 0)]]\<rparr>
      (Str ''f'') :: unit error + string) = Inr ''numeric''"
  by (simp add: check_feature_def is_01_def np_unique_def column_def)

section \<open>The aggregation in \<open>target_plot\<close>\<close>

lemma target_plot_success:
  fixes P :: "spec \<Rightarrow> string \<Rightarrow> frame \<Rightarrow> grid_args \<Rightarrow> 'e + frame \<times> 'd \<times> 'p"
  assumes "target_plot P R w df feature fn target cfg fs ax pp = (Inr v, w')"
  shows "\<exists>ft tt data data_x dc pc bar lines.
    (check_feature (store w df) feature :: 'e error + string) = Inr ft \<and>
    (check_percentile_range (percentile_range cfg) :: 'e error + unit) = Inr () \<and>
    (check_target (store w df) target :: 'e error + string) = Inr tt \<and>
    (select_columns (store w df) (as_list feature @ as_list target) :: 'e error + frame)
       = Inr data \<and>
    P feature ft data cfg = Inr (data_x, dc, pc) \<and>
    (groupby_count (set_column data_x ''fake_count'' (Some 1)) ''fake_count''
       :: 'e error + (rat \<times> nat) list) = Inr bar \<and>
    (prepare_target_lines (set_column data_x ''fake_count'' (Some 1)) target tt
       :: 'e error + (rat \<times> cell) list list) = Inr lines \<and>
    calls w' = calls w @
      [\<lparr>kw_feature_name = fn, kw_display_columns = dc, kw_percentile_columns = pc,
        kw_target = target, kw_bar_data = bar, kw_target_lines = lines, kw_figsize = fs,
        kw_ax = ax, kw_plot_params = pp\<rparr>] \<and>
    R \<lparr>kw_feature_name = fn, kw_display_columns = dc, kw_percentile_columns = pc,
        kw_target = target, kw_bar_data = bar, kw_target_lines = lines, kw_figsize = fs,
        kw_ax = ax, kw_plot_params = pp\<rparr> = Inr v"
  using assms unfolding target_plot_def alloc_def Let_def
  by (auto split: sum.splits prod.splits)

lemma target_plot_store:
  assumes "target_plot P R w df feature fn target cfg fs ax pp = (res, w')"
    and "r < next_ref w"
  shows "store w' r = store w r"
  using assms unfolding target_plot_def alloc_def Let_def
  by (auto split: sum.splits prod.splits)


lemma group_keys_sorted: "sorted (group_keys f)" "distinct (group_keys f)"
  by (simp_all add: group_keys_def)

lemma Some_in_cells:
  "Some k \<in> set (map (\<lambda>r. r c) rs) \<longleftrightarrow> (\<exists>r\<in>set rs. r c = Some k)"
  by (induction rs) auto

lemma set_group_keys: "set (group_keys f) = {k. \<exists>r\<in>set (rows f). r ''x'' = Some k}"
proof -
  have "set (group_keys f) = {k. Some k \<in> set (map (\<lambda>r. r ''x'') (rows f))}"
    by (simp add: group_keys_def set_non_null column_def)
  then show ?thesis
    by (simp only: Some_in_cells)
qed

lemma sort_key_fst_keys:
  "sorted ks \<Longrightarrow> sort_key fst (map (\<lambda>k. (k, g k)) ks) = map (\<lambda>k. (k, g k)) ks"
  by (rule sort_key_id_if_sorted) (simp add: comp_def)

lemma groupby_count_Inr:
  "groupby_count f c = Inr bar \<Longrightarrow>
   bar = map (\<lambda>k. (k, length (group_cells f c k))) (group_keys f)"
  by (simp add: groupby_count_def sort_key_fst_keys group_keys_sorted split: if_splits)

lemma groupby_mean_Inr:
  "groupby_mean f c = Inr line \<Longrightarrow>
   line = map (\<lambda>k. (k, mean (group_cells f c k))) (group_keys f)"
  by (simp add: groupby_mean_def sort_key_fst_keys group_keys_sorted split: if_splits)

lemma groupby_mean_keys: "groupby_mean f c = Inr line \<Longrightarrow> map fst line = group_keys f"
  by (drule groupby_mean_Inr) (simp add: comp_def)


lemma mean_lines_keys:
  "mean_lines f ts = Inr ls \<Longrightarrow> l \<in> set ls \<Longrightarrow> map fst l = group_keys f"
  by (induction ts arbitrary: ls) (auto split: sum.splits dest: groupby_mean_keys)

lemma prepare_target_lines_keys:
  "prepare_target_lines f target tt = Inr ls \<Longrightarrow> l \<in> set ls \<Longrightarrow> map fst l = group_keys f"
  by (auto simp: prepare_target_lines_def split: if_splits spec.splits sum.splits
      dest: groupby_mean_keys mean_lines_keys)


lemma group_keys_set_column:
  "c \<noteq> ''x'' \<Longrightarrow> group_keys (set_column f c v) = group_keys f"
  by (simp add: group_keys_def set_column_def column_def comp_def)

lemma length_non_null_const: "length (non_null (map (\<lambda>r. Some v) rs)) = length rs"
  by (induction rs) simp_all

lemma group_cells_fake_count:
  "length (group_cells (set_column f ''fake_count'' (Some v)) ''fake_count'' k)
     = length (filter (\<lambda>r. r ''x'' = Some k) (rows f))"
  by (simp add: group_cells_def set_column_def filter_map comp_def length_non_null_const)

lemma length_filter_disj:
  "(\<And>x. x \<in> set xs \<Longrightarrow> \<not> (P x \<and> Q x)) \<Longrightarrow>
   length (filter (\<lambda>x. P x \<or> Q x) xs) = length (filter P xs) + length (filter Q xs)"
  by (induction xs) auto

lemma sum_group_sizes:
  "distinct ks \<Longrightarrow>
   sum_list (map (\<lambda>k. length (filter (\<lambda>r. g r = Some k) rs)) ks)
     = length (filter (\<lambda>r. \<exists>k\<in>set ks. g r = Some k) rs)"
proof (induction ks)
  case Nil
  then show ?case by simp
next
  case (Cons a ks)
  have "length (filter (\<lambda>r. g r = Some a \<or> (\<exists>k\<in>set ks. g r = Some k)) rs)
      = length (filter (\<lambda>r. g r = Some a) rs)
        + length (filter (\<lambda>r. \<exists>k\<in>set ks. g r = Some k) rs)"
    using Cons.prems by (intro length_filter_disj) auto
  with Cons show ?case by simp
qed

lemma sum_counts:
  "sum_list (map (\<lambda>k. length (filter (\<lambda>r. r ''x'' = Some k) (rows f))) (group_keys f))
     = length (filter (\<lambda>r. r ''x'' \<noteq> None) (rows f))"
proof -
  have "filter (\<lambda>r. \<exists>k\<in>set (group_keys f). r ''x'' = Some k) (rows f)
      = filter (\<lambda>r. r ''x'' \<noteq> None) (rows f)"
    by (rule filter_cong) (auto simp: set_group_keys)
  then show ?thesis
    by (simp add: sum_group_sizes group_keys_sorted)
qed

lemma bar_data_of_groupby:
  assumes "groupby_count (set_column data_x ''fake_count'' (Some 1)) ''fake_count'' = Inr bar"
  shows "map fst bar = group_keys data_x"
    and "map snd bar
       = map (\<lambda>k. length (filter (\<lambda>r. r ''x'' = Some k) (rows data_x))) (group_keys data_x)"
  using groupby_count_Inr [OF assms]
  by (simp_all add: comp_def group_keys_set_column group_cells_fake_count)


lemmas target_plot_eval =
  target_plot_def world_of_def example_df_def onehot_df_def class_df_def example_cfg_def
  check_feature_def check_percentile_range_def check_target_def is_01_def np_unique_def
  column_def select_columns_def alloc_def feature_as_x_def set_column_def groupby_count_def
  groupby_mean_def group_keys_def group_cells_def prepare_target_lines_def draw_on_def
  mean_def Let_def

lemma example_call_fst: "fst example_call = Inr (Axes 0)"
  by (simp add: example_call_def target_plot_eval)

lemma example_call_eq:
  "target_plot feature_as_x draw_on (world_of example_df) 0 (Str ''f'') ''f'' (Str ''y'')
     example_cfg None PyNone () = (Inr (Axes 0), snd example_call)"
  using example_call_fst by (simp add: example_call_def prod_eq_iff)

lemma nulls_call_fst: "fst nulls_call = Inr (Axes 0)"
  by (simp add: nulls_call_def nulls_df_def target_plot_eval)

lemma nulls_call_eq:
  "target_plot feature_as_x draw_on (world_of nulls_df) 0 (Str ''f'') ''f'' (Str ''y'')
     example_cfg None PyNone () = (Inr (Axes 0), snd nulls_call)"
  using nulls_call_fst by (simp add: nulls_call_def prod_eq_iff)

text \<open>
  C5. After a successful call of \<open>target_plot\<close> the renderer has been called once, with bar
  data and target lines such that: the bin ids of the bar data are strictly ascending;
  they are exactly the bins that some row of \<open>data_x\<close> (the frame the grid builder
  returned) is assigned to, so a bin without rows is absent; and every target line has
  the same list of bin ids as the bar data.
\<close>

theorem bins_shared_by_bars_and_lines:
  fixes P :: "spec \<Rightarrow> string \<Rightarrow> frame \<Rightarrow> grid_args \<Rightarrow> 'e + frame \<times> 'd \<times> 'p"
  assumes "target_plot P R w df feature fn target cfg fs ax pp = (Inr v, w')"
  shows "\<exists>ft data data_x dc pc a.
    (check_feature (store w df) feature :: 'e error + string) = Inr ft \<and>
    (select_columns (store w df) (as_list feature @ as_list target) :: 'e error + frame)
       = Inr data \<and>
    P feature ft data cfg = Inr (data_x, dc, pc) \<and>
    calls w' = calls w @ [a] \<and>
    sorted_wrt (<) (map fst (kw_bar_data a)) \<and>
    set (map fst (kw_bar_data a)) = {k. \<exists>r\<in>set (rows data_x). r ''x'' = Some k} \<and>
    (\<forall>l\<in>set (kw_target_lines a). map fst l = map fst (kw_bar_data a))"
proof -
  from target_plot_success [OF assms] obtain ft tt data data_x dc pc bar lines where
    ft: "(check_feature (store w df) feature :: 'e error + string) = Inr ft" and
    data: "(select_columns (store w df) (as_list feature @ as_list target) :: 'e error + frame)
       = Inr data" and
    grid: "P feature ft data cfg = Inr (data_x, dc, pc)" and
    bar: "(groupby_count (set_column data_x ''fake_count'' (Some 1)) ''fake_count''
       :: 'e error + (rat \<times> nat) list) = Inr bar" and
    lines: "(prepare_target_lines (set_column data_x ''fake_count'' (Some 1)) target tt
       :: 'e error + (rat \<times> cell) list list) = Inr lines" and
    calls: "calls w' = calls w @
      [\<lparr>kw_feature_name = fn, kw_display_columns = dc, kw_percentile_columns = pc,
        kw_target = target, kw_bar_data = bar, kw_target_lines = lines, kw_figsize = fs,
        kw_ax = ax, kw_plot_params = pp\<rparr>]"
    by blast
  have keys: "map fst bar = group_keys data_x"
    by (rule bar_data_of_groupby(1) [OF bar])
  have "sorted_wrt (<) (map fst bar)"
    by (simp add: keys strict_sorted_iff group_keys_sorted)
  moreover have "set (map fst bar) = {k. \<exists>r\<in>set (rows data_x). r ''x'' = Some k}"
    by (simp only: keys set_group_keys)
  moreover have "\<forall>l\<in>set lines. map fst l = map fst bar"
    using prepare_target_lines_keys [OF lines]
    by (simp add: keys group_keys_set_column)
  ultimately show ?thesis
    using ft data grid calls by fastforce
qed

theorem bins_shared_by_bars_and_lines_witness:
  "fst example_call = Inr (Axes 0) \<and>
   (\<exists>a. calls (snd example_call) = [a] \<and>
        sorted_wrt (<) (map fst (kw_bar_data a)) \<and>
        set (map (map fst) (kw_target_lines a)) \<subseteq> {map fst (kw_bar_data a)})"
proof -
  from bins_shared_by_bars_and_lines [OF example_call_eq]
  obtain a where "calls (snd example_call) = calls (world_of example_df) @ [a]"
    and "sorted_wrt (<) (map fst (kw_bar_data a))"
    and "\<forall>l\<in>set (kw_target_lines a). map fst l = map fst (kw_bar_data a)"
    by blast
  then have "calls (snd example_call) = [a] \<and>
        sorted_wrt (<) (map fst (kw_bar_data a)) \<and>
        set (map (map fst) (kw_target_lines a)) \<subseteq> {map fst (kw_bar_data a)}"
    by (auto simp: world_of_def)
  with example_call_fst show ?thesis by blast
qed

text \<open>
  C6 (as amended). After a successful call of \<open>target_plot\<close> the counts in the bar data
  sum to the number of rows of \<open>data_x\<close> (the frame the grid builder returned) that
  received a bin, that is, whose \<open>x\<close> is non-null. Whether the target cell of a row is
  null plays no part: what is counted is the marker column \<open>fake_count\<close>.
\<close>

theorem bar_counts_sum_to_binned_rows:
  fixes P :: "spec \<Rightarrow> string \<Rightarrow> frame \<Rightarrow> grid_args \<Rightarrow> 'e + frame \<times> 'd \<times> 'p"
  assumes "target_plot P R w df feature fn target cfg fs ax pp = (Inr v, w')"
  shows "\<exists>ft data data_x dc pc a.
    (check_feature (store w df) feature :: 'e error + string) = Inr ft \<and>
    (select_columns (store w df) (as_list feature @ as_list target) :: 'e error + frame)
       = Inr data \<and>
    P feature ft data cfg = Inr (data_x, dc, pc) \<and>
    calls w' = calls w @ [a] \<and>
    sum_list (map snd (kw_bar_data a)) = length (filter (\<lambda>r. r ''x'' \<noteq> None) (rows data_x))"
proof -
  from target_plot_success [OF assms] obtain ft data data_x dc pc bar lines where
    ft: "(check_feature (store w df) feature :: 'e error + string) = Inr ft" and
    data: "(select_columns (store w df) (as_list feature @ as_list target) :: 'e error + frame)
       = Inr data" and
    grid: "P feature ft data cfg = Inr (data_x, dc, pc)" and
    bar: "(groupby_count (set_column data_x ''fake_count'' (Some 1)) ''fake_count''
       :: 'e error + (rat \<times> nat) list) = Inr bar" and
    calls: "calls w' = calls w @
      [\<lparr>kw_feature_name = fn, kw_display_columns = dc, kw_percentile_columns = pc,
        kw_target = target, kw_bar_data = bar, kw_target_lines = lines, kw_figsize = fs,
        kw_ax = ax, kw_plot_params = pp\<rparr>]"
    by blast
  have "sum_list (map snd bar) = length (filter (\<lambda>r. r ''x'' \<noteq> None) (rows data_x))"
    by (simp only: bar_data_of_groupby(2) [OF bar] sum_counts)
  then show ?thesis
    using ft data grid calls by fastforce
qed

theorem bar_counts_sum_to_binned_rows_witness:
  "fst nulls_call = Inr (Axes 0) \<and>
   (\<exists>a. calls (snd nulls_call) = [a] \<and> sum_list (map snd (kw_bar_data a)) = 5)"
proof -
  from bar_counts_sum_to_binned_rows [OF nulls_call_eq]
  obtain ft data data_x dc pc a where
    data: "(select_columns (store (world_of nulls_df) 0) (as_list (Str ''f'') @ as_list (Str ''y''))
        :: unit error + frame) = Inr data"
    and grid: "feature_as_x (Str ''f'') ft data example_cfg = Inr (data_x, dc, pc)"
    and calls: "calls (snd nulls_call) = calls (world_of nulls_df) @ [a]"
    and total: "sum_list (map snd (kw_bar_data a))
       = length (filter (\<lambda>r. r ''x'' \<noteq> None) (rows data_x))"
    by blast
  from data have "map (\<lambda>r. r ''f'') (rows data)
      = [Some 0, Some 1, None, Some 1, Some 1, Some 0]"
    by (auto simp: select_columns_def world_of_def nulls_df_def)
  moreover from grid have "map (\<lambda>r. r ''x'') (rows data_x) = map (\<lambda>r. r ''f'') (rows data)"
    by (auto simp: feature_as_x_def)
  ultimately have "map (\<lambda>r. r ''x'') (rows data_x)
      = [Some 0, Some 1, None, Some 1, Some 1, Some 0]"
    by simp
  then have "length (filter (\<lambda>c. c \<noteq> None) (map (\<lambda>r. r ''x'') (rows data_x))) = 5"
    by simp
  then have "length (filter (\<lambda>r. r ''x'' \<noteq> None) (rows data_x)) = 5"
    by (simp add: filter_map comp_def)
  with total calls have "calls (snd nulls_call) = [a] \<and> sum_list (map snd (kw_bar_data a)) = 5"
    by (simp add: world_of_def)
  with nulls_call_fst show ?thesis by blast
qed

text \<open>
  C6 as stated fails. In \<open>nulls_df\<close> the rows are \<open>(0, NaN)\<close>, \<open>(1, 0)\<close>, \<open>(NaN, 1)\<close>,
  \<open>(1, NaN)\<close>, \<open>(1, 1)\<close>, \<open>(0, NaN)\<close>. The bar counts are \<open>2\<close> and \<open>3\<close>, with sum \<open>5\<close>: the
  five rows with a non-null feature, three of which have a null target. Only two rows
  have a non-null feature and a non-null target.
\<close>

theorem null_target_rows_are_counted:
  "fst nulls_call = Inr (Axes 0) \<and>
   map kw_bar_data (calls (snd nulls_call)) = [[(0, 2), (1, 3)]] \<and>
   sum_list (map snd [(0 :: rat, 2 :: nat), (1, 3)]) = 5 \<and>
   complete_rows nulls_df [''f'', ''y''] = 2 \<and>
   complete_rows nulls_df [''y''] = 3 \<and>
   complete_rows nulls_df [''f''] = 5"
  by (simp add: nulls_call_def nulls_df_def target_plot_eval complete_rows_def)

text \<open>
  C9. Whatever the outcome of a call of \<open>target_plot\<close>, every DataFrame that existed
  before the call, the caller's \<open>df\<close> among them, is the same afterwards: the call only
  writes to frames it has made itself.
\<close>

theorem caller_df_unchanged:
  "r < next_ref w \<Longrightarrow>
   store (snd (target_plot P R w df feature fn target cfg fs ax pp)) r = store w r"
  by (cases "target_plot P R w df feature fn target cfg fs ax pp")
     (simp add: target_plot_store)

theorem caller_df_unchanged_witness:
  "(0::nat) < next_ref (world_of example_df) \<and> store (snd example_call) 0 = example_df"
  using caller_df_unchanged [of 0 "world_of example_df" feature_as_x draw_on 0 "Str ''f''" "''f''"
      "Str ''y''" example_cfg None PyNone "()"]
  by (simp add: world_of_def example_call_def)

section \<open>The order of validation\<close>

lemma target_plot_checks:
  fixes P :: "spec \<Rightarrow> string \<Rightarrow> frame \<Rightarrow> grid_args \<Rightarrow> 'e + frame \<times> 'd \<times> 'p"
  shows "(check_feature (store w df) feature :: 'e error + string) = Inl e \<Longrightarrow>
     target_plot P R w df feature fn target cfg fs ax pp = (Inl e, w)"
    and "(check_feature (store w df) feature :: 'e error + string) = Inr ft \<Longrightarrow>
     (check_percentile_range (percentile_range cfg) :: 'e error + unit) = Inl e \<Longrightarrow>
     target_plot P R w df feature fn target cfg fs ax pp = (Inl e, w)"
    and "(check_feature (store w df) feature :: 'e error + string) = Inr ft \<Longrightarrow>
     (check_percentile_range (percentile_range cfg) :: 'e error + unit) = Inr u \<Longrightarrow>
     (check_target (store w df) target :: 'e error + string) = Inl e \<Longrightarrow>
     target_plot P R w df feature fn target cfg fs ax pp = (Inl e, w)"
  by (simp_all add: target_plot_def)

text \<open>
  C3 (as amended). \<open>target_plot\<close> validates the feature, then \<open>percentile_range\<close>, then the
  target, and stops at the first failure. An invalid feature gives \<open>InvalidFeature\<close>. With
  a valid feature, an invalid \<open>percentile_range\<close> gives \<open>InvalidRange\<close>, and not
  \<open>InvalidTarget\<close>, whatever the target is. With a valid feature and a valid
  \<open>percentile_range\<close>, an invalid target gives \<open>InvalidTarget\<close>.
\<close>

theorem validation_order:
  fixes P :: "spec \<Rightarrow> string \<Rightarrow> frame \<Rightarrow> grid_args \<Rightarrow> 'e + frame \<times> 'd \<times> 'p"
  shows
   "((check_feature (store w df) feature :: 'e error + string) = Inl e \<longrightarrow>
       target_plot P R w df feature fn target cfg fs ax pp = (Inl e, w) \<and> InvalidFeature e) \<and>
    ((check_feature (store w df) feature :: 'e error + string) = Inr ft \<and>
     (check_percentile_range (percentile_range cfg) :: 'e error + unit) = Inl e \<longrightarrow>
       target_plot P R w df feature fn target cfg fs ax pp = (Inl e, w) \<and>
       InvalidRange e \<and> \<not> InvalidTarget e) \<and>
    ((check_feature (store w df) feature :: 'e error + string) = Inr ft \<and>
     (check_percentile_range (percentile_range cfg) :: 'e error + unit) = Inr () \<and>
     (check_target (store w df) target :: 'e error + string) = Inl e \<longrightarrow>
       target_plot P R w df feature fn target cfg fs ax pp = (Inl e, w) \<and> InvalidTarget e)"
  by (auto simp: target_plot_checks
      dest: check_feature_error check_percentile_range_error check_target_error)

theorem validation_order_witness:
  "fst (target_plot feature_as_x draw_on (world_of example_df) 0 (Str ''g'') ''g'' (Str ''y'')
          example_cfg None PyNone ())
     = Inl (ValueError ''feature does not exist: %s'' (StrArg ''g'')) \<and>
   fst (target_plot feature_as_x draw_on (world_of example_df) 0 (Str ''f'') ''f'' (Str ''y'')
          (example_cfg\<lparr>percentile_range := Some [1, 2, 3]\<rparr>) None PyNone ())
     = Inl (ValueError ''percentile_range: should contain 2 elements'' NoArg) \<and>
   fst (target_plot feature_as_x draw_on (world_of example_df) 0 (Str ''f'') ''f'' Other
          example_cfg None PyNone ())
     = Inl (ValueError ''target: please pass a string or a list (for multi-class targets)''
              NoArg)"
proof -
  have f: "(check_feature (store (world_of example_df) 0) (Str ''f'') :: unit error + string)
      = Inr ''binary''"
    by (simp add: target_plot_eval)
  have g: "(check_feature (store (world_of example_df) 0) (Str ''g'') :: unit error + string)
      = Inl (ValueError ''feature does not exist: %s'' (StrArg ''g''))"
    by (simp add: target_plot_eval)
  have p: "(check_percentile_range (percentile_range (example_cfg\<lparr>percentile_range := Some [1, 2, 3]\<rparr>))
      :: unit error + unit) = Inl (ValueError ''percentile_range: should contain 2 elements'' NoArg)"
    by (simp add: target_plot_eval)
  have q: "(check_percentile_range (percentile_range example_cfg) :: unit error + unit) = Inr ()"
    by (simp add: target_plot_eval)
  have t: "(check_target (store (world_of example_df) 0) Other :: unit error + string)
      = Inl (ValueError ''target: please pass a string or a list (for multi-class targets)''
              NoArg)"
    by (simp add: target_plot_eval)
  note v = validation_order [where P = feature_as_x and R = draw_on
      and w = "world_of example_df" and df = 0 and fs = None and ax = PyNone and pp = "()"]
  from v [where feature = "Str ''g''" and fn = "''g''" and target = "Str ''y''"
      and cfg = example_cfg and e = "ValueError ''feature does not exist: %s'' (StrArg ''g'')"] g
  have 1: "fst (target_plot feature_as_x draw_on (world_of example_df) 0 (Str ''g'') ''g''
          (Str ''y'') example_cfg None PyNone ())
     = Inl (ValueError ''feature does not exist: %s'' (StrArg ''g''))"
    by simp
  from v [where feature = "Str ''f''" and fn = "''f''" and target = "Str ''y''"
      and cfg = "example_cfg\<lparr>percentile_range := Some [1, 2, 3]\<rparr>" and ft = "''binary''"
      and e = "ValueError ''percentile_range: should contain 2 elements'' NoArg"] f p
  have 2: "fst (target_plot feature_as_x draw_on (world_of example_df) 0 (Str ''f'') ''f''
          (Str ''y'') (example_cfg\<lparr>percentile_range := Some [1, 2, 3]\<rparr>) None PyNone ())
     = Inl (ValueError ''percentile_range: should contain 2 elements'' NoArg)"
    by simp
  from v [where feature = "Str ''f''" and fn = "''f''" and target = Other
      and cfg = example_cfg and ft = "''binary''"
      and e = "ValueError ''target: please pass a string or a list (for multi-class targets)''
              NoArg"] f q t
  have 3: "fst (target_plot feature_as_x draw_on (world_of example_df) 0 (Str ''f'') ''f'' Other
          example_cfg None PyNone ())
     = Inl (ValueError ''target: please pass a string or a list (for multi-class targets)''
              NoArg)"
    by simp
  from 1 2 3 show ?thesis by (intro conjI)
qed

text \<open>
  C3 as stated fails: with the existing feature \<open>f\<close>, the missing target \<open>nope\<close> and the
  \<open>percentile_range\<close> \<open>(10, 105)\<close>, the target check alone would raise
  \<open>target does not exist\<close>, but the call raises the range error.
\<close>

theorem range_error_before_target_error:
  "(check_target (store (world_of example_df) 0) (Str ''nope'') :: unit error + string)
     = Inl (ValueError ''target does not exist: %s'' (StrArg ''nope'')) \<and>
   fst (target_plot feature_as_x draw_on (world_of example_df) 0 (Str ''f'') ''f'' (Str ''nope'')
          (example_cfg\<lparr>percentile_range := Some [10, 105]\<rparr>) None PyNone ())
     = Inl (ValueError ''percentile_range: should be between 0 and 100'' NoArg) \<and>
   InvalidRange (ValueError ''percentile_range: should be between 0 and 100'' NoArg :: unit error) \<and>
   \<not> InvalidTarget (ValueError ''percentile_range: should be between 0 and 100'' NoArg :: unit error)"
  by (simp add: target_plot_eval InvalidRange_def InvalidTarget_def)

section \<open>Lists that name every column\<close>

text \<open>
  C4. A list that names every column of the dataset is rejected, as a feature with
  \<open>feature does not exist\<close> and as a target with \<open>target does not exist\<close>, although
  every listed column exists: lines 135 and 159 test for a proper subset.
\<close>

theorem full_column_list_rejected:
  "set [''a'', ''b''] \<subseteq> set (columns onehot_df) \<and>
   fst (target_plot feature_as_x draw_on (world_of onehot_df) 0 (Lst [''a'', ''b'']) ''ab''
          (Str ''a'') example_cfg None PyNone ())
     = Inl (ValueError ''feature does not exist: %s'' (ListArg [''a'', ''b''])) \<and>
   fst (target_plot feature_as_x draw_on (world_of onehot_df) 0 (Str ''a'') ''a''
          (Lst [''a'', ''b'']) example_cfg None PyNone ())
     = Inl (ValueError ''target does not exist: %s'' (ListArg [''a'', ''b'']))"
  by (simp add: target_plot_eval)

section \<open>List targets\<close>

lemma select_columns_error: "select_columns df ns = Inl e \<Longrightarrow> \<not> InvalidTarget e"
  by (auto simp: select_columns_def InvalidTarget_def split: option.splits)

lemma groupby_count_error: "groupby_count f c = Inl e \<Longrightarrow> \<not> InvalidTarget e"
  by (auto simp: groupby_count_def InvalidTarget_def split: if_splits)

lemma groupby_mean_error: "groupby_mean f c = Inl e \<Longrightarrow> \<not> InvalidTarget e"
  by (auto simp: groupby_mean_def InvalidTarget_def split: if_splits)

lemma mean_lines_error: "mean_lines f ts = Inl e \<Longrightarrow> \<not> InvalidTarget e"
  by (induction ts) (auto split: sum.splits dest: groupby_mean_error)

lemma prepare_target_lines_error:
  "prepare_target_lines f target tt = Inl e \<Longrightarrow> \<not> InvalidTarget e"
  by (auto simp: prepare_target_lines_def InvalidTarget_def
      split: if_splits spec.splits sum.splits dest: groupby_mean_error mean_lines_error)

lemma target_plot_after_checks:
  fixes P :: "spec \<Rightarrow> string \<Rightarrow> frame \<Rightarrow> grid_args \<Rightarrow> 'e + frame \<times> 'd \<times> 'p"
  assumes "(check_feature (store w df) feature :: 'e error + string) = Inr ft"
    and "(check_percentile_range (percentile_range cfg) :: 'e error + unit) = Inr u"
    and "(check_target (store w df) target :: 'e error + string) = Inr tt"
    and "fst (target_plot P R w df feature fn target cfg fs ax pp) = Inl e"
  shows "\<not> InvalidTarget e"
  using assms unfolding target_plot_def alloc_def Let_def
  by (auto simp: InvalidTarget_def split: sum.splits prod.splits
      dest: select_columns_error groupby_count_error prepare_target_lines_error)

lemma check_target_list:
  assumes "2 \<le> length ts" and "set ts \<subset> set (columns df)"
  shows "(check_target df (Lst ts) :: 'e error + string) =
     (case check_onehot_targets df ts of Some e \<Rightarrow> Inl e | None \<Rightarrow> Inr ''multi-class'')"
  using assms by (simp add: check_target_def)

text \<open>
  C7 (as amended). Take a call of \<open>target_plot\<close> whose feature and \<open>percentile_range\<close> pass
  validation and whose target is a list of at least two columns of the dataset that are
  not all of its columns. The call fails with \<open>InvalidTarget\<close> if and only if the
  distinct values of at least one listed column are not exactly \<open>{0, 1}\<close>.
\<close>

theorem list_target_invalid_iff:
  fixes P :: "spec \<Rightarrow> string \<Rightarrow> frame \<Rightarrow> grid_args \<Rightarrow> 'e + frame \<times> 'd \<times> 'p"
  assumes "(check_feature (store w df) feature :: 'e error + string) = Inr ft"
    and "(check_percentile_range (percentile_range cfg) :: 'e error + unit) = Inr ()"
    and "2 \<le> length ts"
    and "set ts \<subset> set (columns (store w df))"
  shows "(\<exists>e. fst (target_plot P R w df feature fn (Lst ts) cfg fs ax pp) = Inl e \<and> InvalidTarget e)
     \<longleftrightarrow> (\<exists>t\<in>set ts. set (column (store w df) t) \<noteq> {Some 0, Some 1})"
proof (cases "check_onehot_targets (store w df) ts :: 'e error option")
  case None
  then have all: "\<forall>t\<in>set ts. set (column (store w df) t) = {Some 0, Some 1}"
    by (simp add: check_onehot_targets_iff is_01_iff)
  from None have "(check_target (store w df) (Lst ts) :: 'e error + string) = Inr ''multi-class''"
    by (simp add: check_target_list [OF assms(3,4)])
  from target_plot_after_checks [OF assms(1,2) this]
  have "\<not> (\<exists>e. fst (target_plot P R w df feature fn (Lst ts) cfg fs ax pp) = Inl e \<and> InvalidTarget e)"
    by blast
  with all show ?thesis by blast
next
  case (Some e)
  then have bad: "\<exists>t\<in>set ts. set (column (store w df) t) \<noteq> {Some 0, Some 1}"
    using check_onehot_targets_iff [of "store w df" ts, where ?'a = 'e]
    by (simp add: is_01_iff)
  from Some have "(check_target (store w df) (Lst ts) :: 'e error + string) = Inl e"
    by (simp add: check_target_list [OF assms(3,4)])
  from target_plot_checks(3) [OF assms(1,2) this] check_target_error [OF this]
  have "fst (target_plot P R w df feature fn (Lst ts) cfg fs ax pp) = Inl e \<and> InvalidTarget e"
    by simp
  with bad show ?thesis by blast
qed

theorem list_target_invalid_iff_witness:
  "(check_feature (store (world_of class_df) 0) (Str ''f'') :: unit error + string)
     = Inr ''numeric'' \<and>
   (check_percentile_range (percentile_range example_cfg) :: unit error + unit) = Inr () \<and>
   2 \<le> length [''a'', ''f''] \<and>
   set [''a'', ''f''] \<subset> set (columns (store (world_of class_df) 0)) \<and>
   set (column (store (world_of class_df) 0) ''f'') \<noteq> {Some 0, Some 1} \<and>
   (\<exists>e. fst (target_plot feature_as_x draw_on (world_of class_df) 0 (Str ''f'') ''f''
               (Lst [''a'', ''f'']) example_cfg None PyNone ()) = Inl e \<and> InvalidTarget e)"
proof -
  have f: "(check_feature (store (world_of class_df) 0) (Str ''f'') :: unit error + string)
     = Inr ''numeric''"
    by (simp add: target_plot_eval)
  have p: "(check_percentile_range (percentile_range example_cfg) :: unit error + unit) = Inr ()"
    by (simp add: target_plot_eval)
  have l: "2 \<le> length [''a'', ''f'']"
    by simp
  have "set [''a'', ''f''] \<subseteq> set (columns (store (world_of class_df) 0))"
    and "''b'' \<in> set (columns (store (world_of class_df) 0))"
    and "''b'' \<notin> set [''a'', ''f'']"
    by (simp_all add: world_of_def class_df_def)
  then have s: "set [''a'', ''f''] \<subset> set (columns (store (world_of class_df) 0))"
    by blast
  have c: "column (store (world_of class_df) 0) ''f'' = [Some 0, Some 1, Some 2]"
    by (simp add: world_of_def class_df_def column_def)
  have "Some 2 \<in> set (column (store (world_of class_df) 0) ''f'')"
    by (simp add: c)
  moreover have "Some (2::rat) \<notin> {Some 0, Some 1}"
    by simp
  ultimately have b: "set (column (store (world_of class_df) 0) ''f'') \<noteq> {Some 0, Some 1}"
    by metis
  have "''f'' \<in> set [''a'', ''f'']"
    by simp
  with b have "\<exists>t\<in>set [''a'', ''f'']. set (column (store (world_of class_df) 0) t) \<noteq> {Some 0, Some 1}"
    by blast
  with list_target_invalid_iff [OF f p l s, of feature_as_x draw_on "''f''" None PyNone "()"]
  have "\<exists>e. fst (target_plot feature_as_x draw_on (world_of class_df) 0 (Str ''f'') ''f''
               (Lst [''a'', ''f'']) example_cfg None PyNone ()) = Inl e \<and> InvalidTarget e"
    by blast
  with f p l s b show ?thesis by blast
qed

text \<open>
  C7 as stated fails: the listed target column \<open>f\<close> has the distinct values
  \<open>{0, 1, 2}\<close>, but the feature \<open>g\<close> does not exist and the call fails with the feature
  error, which is not \<open>InvalidTarget\<close>.
\<close>

theorem feature_error_hides_target_error:
  "2 \<le> length [''a'', ''f''] \<and>
   set [''a'', ''f''] \<subseteq> set (columns class_df) \<and>
   column class_df ''f'' = [Some 0, Some 1, Some 2] \<and>
   fst (target_plot feature_as_x draw_on (world_of class_df) 0 (Str ''g'') ''g''
          (Lst [''a'', ''f'']) example_cfg None PyNone ())
     = Inl (ValueError ''feature does not exist: %s'' (StrArg ''g'')) \<and>
   \<not> InvalidTarget (ValueError ''feature does not exist: %s'' (StrArg ''g'') :: unit error)"
  by (simp add: target_plot_eval InvalidTarget_def)

section \<open>\<open>actual_plot\<close>: the class selector and the returned value\<close>

lemma str_of_nat_hd: "str_of_nat n \<noteq> [] \<and> hd (str_of_nat n) \<noteq> CHR ''-''"
proof (induction n rule: str_of_nat.induct)
  case (1 n)
  show ?case
  proof (cases "n < 10")
    case True
    then have "''0123456789'' ! n \<in> set ''0123456789''"
      by (intro nth_mem) simp
    then have "''0123456789'' ! n \<noteq> CHR ''-''"
      by auto
    with True show ?thesis
      by (subst (1 2) str_of_nat.simps) simp
  next
    case False
    with 1 have "str_of_nat (n div 10) \<noteq> [] \<and> hd (str_of_nat (n div 10)) \<noteq> CHR ''-''"
      by simp
    with False show ?thesis
      by (subst (1 2) str_of_nat.simps) simp
  qed
qed

lemma class_key_negative:
  assumes "c < 0"
  shows "class_key c \<noteq> class_key (int n)"
proof
  assume "class_key c = class_key (int n)"
  with assms have "CHR ''-'' # str_of_nat (nat (- c)) = str_of_nat n"
    by (simp add: class_key_def fmt_d_def)
  then have "hd (str_of_nat n) = CHR ''-''"
    by (metis list.sel(1))
  with str_of_nat_hd [of n] show False
    by simp
qed

lemma class_dict_no_negative:
  assumes "class_dict d" and "c < 0"
  shows "map_of d (class_key c) = None"
proof -
  have "class_key c \<notin> set (map (\<lambda>n. class_key (int n)) [0..<length d])"
    using class_key_negative [OF assms(2)] by auto
  with assms(1) have "class_key c \<notin> set (map fst d)"
    unfolding class_dict_def by blast
  then have "class_key c \<notin> fst ` set d"
    by simp
  then show ?thesis
    by (simp add: map_of_eq_None_iff)
qed

text \<open>
  C8. With \<open>multi_flag\<close> true, a result dict and an integer \<open>which_class\<close> that is at least
  the number of classes, \<open>actual_plot\<close> fails with \<open>InvalidClassSelector\<close>, and no call of
  matplotlib or of a renderer has been made: the calls made are those made before.
\<close>

theorem class_selector_out_of_range:
  fixes raises :: "('o, 'pp) plot_call \<Rightarrow> 'e option"
  assumes "int (dict_len d) \<le> c"
  shows "actual_plot raises tr (Dict d) feature_name figsize plot_params True (Some c) ncols
       = (Inl (ValueError ''which_class: class does not exist'' NoArg), tr) \<and>
     InvalidClassSelector (ValueError ''which_class: class does not exist'' NoArg :: 'e error)"
  using assms
  by (simp add: actual_plot_def which_class_ge_len_def InvalidClassSelector_def)

theorem class_selector_out_of_range_witness:
  "int (dict_len three_classes) \<le> 5 \<and>
   (actual_plot never_raises [] (Dict three_classes) ''f'' None () True (Some 5) None
      :: (unit error + nat pyval) \<times> (unit, unit) plot_call list)
     = (Inl (ValueError ''which_class: class does not exist'' NoArg), [])"
proof -
  have h: "int (dict_len three_classes) \<le> 5"
    by (simp add: dict_len_def three_classes_def)
  from class_selector_out_of_range [OF h, of never_raises "[]" "''f''" None "()" None]
  have "(actual_plot never_raises [] (Dict three_classes) ''f'' None () True (Some 5) None
      :: (unit error + nat pyval) \<times> (unit, unit) plot_call list)
     = (Inl (ValueError ''which_class: class does not exist'' NoArg), [])"
    by (rule conjunct1)
  with h show ?thesis by (rule conjI)
qed

text \<open>
  C10. With \<open>multi_flag\<close> true, a multi-class result (keys \<open>class_0\<close>, \<open>class_1\<close>, ...) and
  a negative integer \<open>which_class\<close>, the check of line 32 lets the call through; the
  figure and the subplot are made, and the lookup of line 62 then fails with a
  \<open>KeyError\<close>, which is none of the four errors of the specification.
\<close>

theorem negative_class_selector:
  fixes raises :: "('o, 'pp) plot_call \<Rightarrow> 'e option"
  assumes "c < 0" and "class_dict d"
  shows "actual_plot raises tr (Dict d) feature_name figsize plot_params True (Some c) ncols
       = (Inl (KeyError (class_key c)),
          tr @ [Figure (case figsize of None \<Rightarrow> 16 | Some (width, height) \<Rightarrow> width)
                  ((case figsize of None \<Rightarrow> 16 | Some (width, height) \<Rightarrow> width) / (67 / 10)),
                Subplot 111]) \<and>
     \<not> in_taxonomy (KeyError (class_key c) :: 'e error)"
proof -
  have "\<not> int (dict_len d) \<le> c"
    using assms(1) by simp
  then have "(which_class_ge_len (Some c) (Dict d) :: 'e error + bool) = Inr False"
    by (simp add: which_class_ge_len_def)
  moreover have "map_of d (class_key c) = None"
    by (rule class_dict_no_negative [OF assms(2,1)])
  moreover have "\<not> in_taxonomy (KeyError (class_key c) :: 'e error)"
    by (simp add: in_taxonomy_def InvalidFeature_def InvalidTarget_def InvalidRange_def
        InvalidClassSelector_def)
  ultimately show ?thesis
    by (simp add: actual_plot_def actual_plot_body_def Let_def)
qed

theorem negative_class_selector_witness:
  "(- 1 :: int) < 0 \<and> class_dict three_classes \<and>
   (actual_plot never_raises [] (Dict three_classes) ''f'' None () True (Some (- 1)) None
      :: (unit error + nat pyval) \<times> (unit, unit) plot_call list)
     = (Inl (KeyError ''class_-1''), [Figure 16 (160 / 67), Subplot 111])"
proof -
  have n: "(- 1 :: int) < 0"
    by simp
  have k: "class_dict three_classes"
    by (simp add: class_dict_def three_classes_def class_key_def fmt_d_def upt_rec)
  have "(actual_plot never_raises [] (Dict three_classes) ''f'' None () True (Some (- 1)) None
      :: (unit error + nat pyval) \<times> (unit, unit) plot_call list)
     = (Inl (KeyError (class_key (- 1))),
        [] @ [Figure (case (None :: (rat \<times> rat) option) of None \<Rightarrow> 16 | Some (width, height) \<Rightarrow> width)
                ((case (None :: (rat \<times> rat) option) of None \<Rightarrow> 16 | Some (width, height) \<Rightarrow> width) / (67 / 10)),
              Subplot 111]) \<and>
     \<not> in_taxonomy (KeyError (class_key (- 1)) :: unit error)"
    by (rule negative_class_selector [OF n k])
  then have "(actual_plot never_raises [] (Dict three_classes) ''f'' None () True (Some (- 1)) None
      :: (unit error + nat pyval) \<times> (unit, unit) plot_call list)
     = (Inl (KeyError ''class_-1''), [Figure 16 (160 / 67), Subplot 111])"
    by (simp add: class_key_def fmt_d_def)
  with n k show ?thesis by (intro conjI)
qed

lemma actual_plot_returns_None:
  "fst (actual_plot raises tr pdp_isolate_out feature_name figsize plot_params multi_flag
          which_class ncols) = Inr v \<Longrightarrow> v = PyNone"
  by (auto simp: actual_plot_def actual_plot_body_def single_panel_def invoke_def Let_def
      split: sum.splits bool.splits pdp_out.splits if_splits option.splits prod.splits)

lemmas actual_plot_eval =
  actual_plot_def actual_plot_body_def single_panel_def invoke_def which_class_ge_len_def
  dict_len_def three_classes_def never_raises_def class_key_def fmt_d_def Let_def

text \<open>
  C2 (as amended). A successful call of \<open>target_plot\<close> returns the value that its call of
  the renderer \<open>_target_plot\<close> returned. \<open>actual_plot\<close> has no \<open>return\<close> statement: a
  successful call returns \<open>None\<close>.
\<close>

theorem returned_values:
  fixes P :: "spec \<Rightarrow> string \<Rightarrow> frame \<Rightarrow> grid_args \<Rightarrow> 'e + frame \<times> 'd \<times> 'p"
    and raises :: "('o, 'pp) plot_call \<Rightarrow> 'e option"
  shows
   "(target_plot P R w df feature fn target cfg fs ax pp = (Inr v, w') \<longrightarrow>
       (\<exists>a. calls w' = calls w @ [a] \<and> R a = Inr v)) \<and>
    (fst (actual_plot raises tr pdp_isolate_out feature_name figsize plot_params multi_flag
            which_class ncols) = Inr v' \<longrightarrow> v' = PyNone)"
proof (intro conjI impI)
  assume "target_plot P R w df feature fn target cfg fs ax pp = (Inr v, w')"
  from target_plot_success [OF this] show "\<exists>a. calls w' = calls w @ [a] \<and> R a = Inr v"
    by blast
next
  assume "fst (actual_plot raises tr pdp_isolate_out feature_name figsize plot_params multi_flag
            which_class ncols) = Inr v'"
  then show "v' = PyNone"
    by (rule actual_plot_returns_None)
qed

theorem returned_values_witness:
  "fst example_call = Inr (Axes 0) \<and>
   (\<exists>a. calls (snd example_call) = [a] \<and> draw_on a = Inr (Axes 0)) \<and>
   (\<exists>v. fst (actual_plot never_raises [] (Dict three_classes) ''f'' None () False None None)
          = (Inr v :: unit error + nat pyval) \<and> v = PyNone)"
proof -
  obtain v :: "nat pyval" where
    v: "fst (actual_plot never_raises [] (Dict three_classes) ''f'' None () False None None)
          = (Inr v :: unit error + nat pyval)"
    by (simp add: actual_plot_eval upt_rec)
  have "(target_plot feature_as_x draw_on (world_of example_df) 0 (Str ''f'') ''f'' (Str ''y'')
           example_cfg None PyNone () = (Inr (Axes 0), snd example_call) \<longrightarrow>
         (\<exists>a. calls (snd example_call) = calls (world_of example_df) @ [a] \<and>
              draw_on a = Inr (Axes 0))) \<and>
        (fst (actual_plot never_raises [] (Dict three_classes) ''f'' None () False None None)
          = (Inr v :: unit error + nat pyval) \<longrightarrow> v = PyNone)"
    by (rule returned_values)
  with example_call_eq v
  have "(\<exists>a. calls (snd example_call) = calls (world_of example_df) @ [a] \<and>
              draw_on a = Inr (Axes 0)) \<and> v = PyNone"
    by blast
  moreover have "calls (world_of example_df) = []"
    by (simp add: world_of_def)
  ultimately show ?thesis
    using example_call_fst v by auto
qed

text \<open>
  C2 as stated fails for \<open>actual_plot\<close>: the call on a single result object, with all
  defaults, succeeds and returns \<open>None\<close>, not a drawing surface.
\<close>

theorem actual_plot_returns_no_handle:
  "fst (actual_plot never_raises [] (Obj ()) ''f'' None () False None None)
     = (Inr PyNone :: unit error + nat pyval)"
  by (simp add: actual_plot_eval)

end
